theory Spec2Isabelle
  imports Complex_Main
begin

section \<open>JavaScript values\<close>

text \<open>
  The values the commit event listener handles: option values, the arguments a hub
  delivers, the arguments the caller's callback receives, and thrown values. A number
  is an IEEE double; every finite double is a rational, so \<open>Finite q\<close> carries its exact
  value (negative zero is identified with zero). \<open>JError m\<close> is the object made by
  \<^verbatim>\<open>new Error(m)\<close>; \<open>JTypeError p\<close> is the TypeError the runtime throws when
  property \<open>p\<close> of \<^verbatim>\<open>null\<close> or \<^verbatim>\<open>undefined\<close> is read.
\<close>

datatype jsnum = NaN | PosInfinity | NegInfinity | Finite rat

datatype jsval =
    JUndefined
  | JNull
  | JBool bool
  | JNum jsnum
  | JStr string
  | JError string
  | JTypeError string

text \<open>Truthiness, as tested by \<^verbatim>\<open>if (v)\<close> and \<^verbatim>\<open>!v\<close>.\<close>

fun num_truthy :: "jsnum \<Rightarrow> bool" where
  "num_truthy NaN = False"
| "num_truthy PosInfinity = True"
| "num_truthy NegInfinity = True"
| "num_truthy (Finite q) = (q \<noteq> 0)"

fun truthy :: "jsval \<Rightarrow> bool" where
  "truthy JUndefined = False"
| "truthy JNull = False"
| "truthy (JBool b) = b"
| "truthy (JNum n) = num_truthy n"
| "truthy (JStr s) = (s \<noteq> [])"
| "truthy (JError m) = True"
| "truthy (JTypeError m) = True"

fun js_typeof :: "jsval \<Rightarrow> string" where
  "js_typeof JUndefined = ''undefined''"
| "js_typeof JNull = ''object''"
| "js_typeof (JBool b) = ''boolean''"
| "js_typeof (JNum n) = ''number''"
| "js_typeof (JStr s) = ''string''"
| "js_typeof (JError m) = ''object''"
| "js_typeof (JTypeError m) = ''object''"

text \<open>
  \<^verbatim>\<open>Number(v)\<close>. The runtime's conversion of a string to a number (StringToNumber,
  with its rounding to a double) is a primitive of the language, not code of the
  listener: it is the parameter \<open>toNum\<close>. An error object is first converted to its
  string form (\<^verbatim>\<open>Error.prototype.toString\<close>).
\<close>

fun error_toString :: "string \<Rightarrow> string \<Rightarrow> string" where
  "error_toString name m = (if m = [] then name else name @ '': '' @ m)"

fun js_Number :: "(string \<Rightarrow> jsnum) \<Rightarrow> jsval \<Rightarrow> jsnum" where
  "js_Number toNum JUndefined = NaN"
| "js_Number toNum JNull = Finite 0"
| "js_Number toNum (JBool b) = Finite (if b then 1 else 0)"
| "js_Number toNum (JNum n) = n"
| "js_Number toNum (JStr s) = toNum s"
| "js_Number toNum (JError m) = toNum (error_toString ''Error'' m)"
| "js_Number toNum (JTypeError m) = toNum (error_toString ''TypeError'' m)"

text \<open>
  A plain object is a map from its own keys to values. Reading a key the object does
  not have gives \<^verbatim>\<open>undefined\<close>. \<^verbatim>\<open>Object.assign(target, source)\<close> copies every own key
  of the source over the target.
\<close>

type_synonym js_object = "string \<rightharpoonup> jsval"

definition js_get :: "js_object \<Rightarrow> string \<Rightarrow> jsval" where
  "js_get obj k = (case obj k of None \<Rightarrow> JUndefined | Some v \<Rightarrow> v)"

definition object_assign :: "js_object \<Rightarrow> js_object \<Rightarrow> js_object" where
  "object_assign target source = target ++ source"

section \<open>The listener and the world it runs in\<close>

type_synonym hub_ref = nat
type_synonym obj_ref = nat
type_synonym peer_ref = string

text \<open>
  Modelled from the spec: the hub-side registration record (class EventRegistration of
  fabric-client, not among the sources). The spec's glossary: "the hub-side record
  created when a transaction watch is installed, holding delivery options such as
  auto-unregister". It holds the options object given to \<^verbatim>\<open>registerTxEvent\<close> and the
  listener whose bound handlers were given; property \<^verbatim>\<open>unregister\<close> of the record is
  read from those options.
\<close>

record event_registration =
  reg_listener :: string
  reg_options :: js_object

text \<open>
  An event hub object, as far as the listener reads it: its \<^verbatim>\<open>_peer\<close>, the address
  \<^verbatim>\<open>getPeerAddr()\<close> reports, and its table \<^verbatim>\<open>_transactionRegistrations\<close>.
\<close>

record hub =
  peer :: peer_ref
  peerAddr :: string
  transactionRegistrations :: "string \<rightharpoonup> event_registration"

datatype manager_request =
    GetEventHub peer_ref bool
  | GetFixedEventHub peer_ref
  | GetReplayEventHub

text \<open>
  Every call the listener makes on a collaborator is recorded, in order: a manager
  request with the handle it returned, a hub method with its arguments, and an
  invocation of the caller's callback with its argument list.
\<close>

datatype event =
    Manager manager_request hub_ref
  | RegisterTxEvent hub_ref string string js_object
  | UnregisterTxEvent hub_ref string
  | Connect hub_ref bool
  | GetPeerAddr hub_ref
  | Callback "jsval list"

datatype log_entry = Debug string "jsval list"

text \<open>
  The world: the store of hub objects and of options objects (both shared by
  reference), the event-hub manager, the record of collaborator calls and the debug
  log. The manager is an external collaborator that decides itself which handle it
  supplies, so its answers are an input: \<open>answer w n r\<close> is the handle it returns when
  its \<open>n\<close>-th call is request \<open>r\<close>.
\<close>

record world =
  hubs :: "hub_ref \<Rightarrow> hub"
  objs :: "obj_ref \<Rightarrow> js_object"
  answer :: "nat \<Rightarrow> manager_request \<Rightarrow> hub_ref"
  calls :: nat
  trace :: "event list"
  debug_log :: "log_entry list"

text \<open>
  The listener object. \<open>options\<close> is a reference to the options object, \<open>eventHub\<close> a
  reference to the bound hub (\<open>None\<close> when none is bound). The caller's callback is
  known by its outcome on an argument list: \<open>None\<close> when it returns, \<open>Some e\<close> when it
  throws \<open>e\<close>; what else the callback does is outside the model.
\<close>

record listener =
  transactionId :: string
  listenerName :: string
  eventCallback :: "jsval list \<Rightarrow> jsval option"
  options :: obj_ref
  eventHub :: "hub_ref option"
  registration :: "event_registration option"
  registered :: bool
  filtered :: bool

definition logger_debug :: "string \<Rightarrow> jsval list \<Rightarrow> world \<Rightarrow> world" where
  "logger_debug msg args w = w\<lparr>debug_log := debug_log w @ [Debug msg args]\<rparr>"

definition set_property :: "obj_ref \<Rightarrow> string \<Rightarrow> jsval \<Rightarrow> world \<Rightarrow> world" where
  "set_property r k v w = w\<lparr>objs := (objs w)(r := (objs w r)(k \<mapsto> v))\<rparr>"

subsection \<open>Collaborators\<close>

text \<open>
  Modelled from the spec: a call of the event-hub manager (EventHubManager of
  fabric-network, not among the sources). Section 2 of the spec: the manager is an
  external collaborator that "supplies hub handles"; the call returns the handle the
  manager answers with and is recorded.
\<close>

definition manager_call :: "manager_request \<Rightarrow> world \<Rightarrow> hub_ref \<times> world" where
  "manager_call req w =
     (let h = answer w (calls w) req
      in (h, w\<lparr>calls := Suc (calls w), trace := trace w @ [Manager req h]\<rparr>))"

text \<open>
  Modelled from the spec: \<^verbatim>\<open>getEventHub(peerRef, forceNew) -> HubHandle\<close> of the manager
  (section 6), a "shared or forced-new handle bound to a peer".
\<close>

definition getEventHub :: "peer_ref \<Rightarrow> bool \<Rightarrow> world \<Rightarrow> hub_ref \<times> world" where
  "getEventHub p forceNew w = manager_call (GetEventHub p forceNew) w"

text \<open>
  Modelled from the spec: \<^verbatim>\<open>getFixedEventHub(peerRef) -> HubHandle\<close> of the manager
  (section 6), a "dedicated handle bound to a peer".
\<close>

definition getFixedEventHub :: "peer_ref \<Rightarrow> world \<Rightarrow> hub_ref \<times> world" where
  "getFixedEventHub p w = manager_call (GetFixedEventHub p) w"

text \<open>
  Modelled from the spec: \<^verbatim>\<open>getReplayEventHub() -> HubHandle\<close> of the manager (section
  6), a "handle that can source historical plus live events".
\<close>

definition getReplayEventHub :: "world \<Rightarrow> hub_ref \<times> world" where
  "getReplayEventHub w = manager_call GetReplayEventHub w"

text \<open>
  Modelled from the spec: \<^verbatim>\<open>registerTxEvent(transactionId, onEvent, onError, options)
  -> registrationId\<close> of a hub (ChannelEventHub of fabric-client, not among the
  sources). Sections 4.1 and 6 of the spec: it installs the transaction watch and
  returns the registration handle; the hub's lookup table, "by transaction id", then
  holds the registration record. The two handlers are methods bound to the listener,
  which stands for them.
\<close>

definition registerTxEvent ::
  "hub_ref \<Rightarrow> string \<Rightarrow> string \<Rightarrow> js_object \<Rightarrow> world \<Rightarrow> string \<times> world" where
  "registerTxEvent h txid owner opts w =
     (let hb = hubs w h;
          reg = \<lparr>reg_listener = owner, reg_options = opts\<rparr>;
          hb' = hb\<lparr>transactionRegistrations := (transactionRegistrations hb)(txid \<mapsto> reg)\<rparr>
      in (txid, w\<lparr>hubs := (hubs w)(h := hb'),
                   trace := trace w @ [RegisterTxEvent h txid owner opts]\<rparr>))"

text \<open>
  Modelled from the spec: \<^verbatim>\<open>unregisterTxEvent(transactionId)\<close> of a hub (section 6);
  section 4.1: it "remove[s] the transaction watch for this id from that hub".
\<close>

definition unregisterTxEvent :: "hub_ref \<Rightarrow> string \<Rightarrow> world \<Rightarrow> world" where
  "unregisterTxEvent h txid w =
     (let hb = hubs w h;
          hb' = hb\<lparr>transactionRegistrations := (transactionRegistrations hb)(txid := None)\<rparr>
      in w\<lparr>hubs := (hubs w)(h := hb'), trace := trace w @ [UnregisterTxEvent h txid]\<rparr>)"

text \<open>
  Modelled from the spec: \<^verbatim>\<open>connect(fullBlockData)\<close> of a hub (section 6), which opens
  or confirms the hub's connection; the connection itself is out of the spec's scope,
  so the call is only recorded.
\<close>

definition connect :: "hub_ref \<Rightarrow> bool \<Rightarrow> world \<Rightarrow> world" where
  "connect h fullBlock w = w\<lparr>trace := trace w @ [Connect h fullBlock]\<rparr>"

text \<open>
  Modelled from the spec: \<^verbatim>\<open>getPeerAddr()\<close> of a hub (section 6), "for diagnostic
  reporting on error".
\<close>

definition getPeerAddr :: "hub_ref \<Rightarrow> world \<Rightarrow> string \<times> world" where
  "getPeerAddr h w = (peerAddr (hubs w h), w\<lparr>trace := trace w @ [GetPeerAddr h]\<rparr>)"

text \<open>
  Modelled from the spec: \<^verbatim>\<open>register()\<close> of the base class (AbstractEventListener of
  fabric-network, not among the sources). Section 4.1 of the spec: base registration
  "marks bookkeeping state, does not touch the hub"; that bookkeeping is none of the
  listener's fields of section 3, so the fields and the world stay as they are.
\<close>

definition super_register :: "listener \<Rightarrow> world \<Rightarrow> listener \<times> world" where
  "super_register l w = (l, w)"

text \<open>
  Modelled from the spec: \<^verbatim>\<open>unregister()\<close> of the base class. Section 3 of the spec has
  unregistration flip \<open>registered\<close> back to false; of the two steps of the listener's
  \<^verbatim>\<open>unregister()\<close>, the base bookkeeping and the hub's \<^verbatim>\<open>unregisterTxEvent\<close>, only the
  first can do that.
\<close>

definition super_unregister :: "listener \<Rightarrow> world \<Rightarrow> listener \<times> world" where
  "super_unregister l w = (l\<lparr>registered := False\<rparr>, w)"

text \<open>
  Modelled from the spec: \<^verbatim>\<open>isregistered()\<close> of the base class, which reads the
  "boolean lifecycle flag" \<open>registered\<close> of section 3.
\<close>

definition isregistered :: "listener \<Rightarrow> bool" where
  "isregistered l = registered l"

subsection \<open>CommitEventListener\<close>

text \<open>\<^verbatim>\<open>unregister()\<close>, lines 59-64.\<close>

definition unregister :: "listener \<Rightarrow> world \<Rightarrow> listener \<times> world" where
  "unregister l0 w0 =
     (case super_unregister l0 w0 of (l, w) \<Rightarrow>
        (case eventHub l of
           None \<Rightarrow> (l, w)
         | Some h \<Rightarrow> (l, unregisterTxEvent h (transactionId l) w)))"

text \<open>
  The hub's table is a plain object, so the read \<^verbatim>\<open>registrations[id]\<close> of line 108
  finds more than the table's own entries: for an id that names a member every object
  inherits from \<^verbatim>\<open>Object.prototype\<close> it gives that member. These are the names of the
  inherited members.
\<close>

definition object_prototype_members :: "string list" where
  "object_prototype_members =
     [''constructor'', ''__defineGetter__'', ''__defineSetter__'', ''hasOwnProperty'',
      ''__lookupGetter__'', ''__lookupSetter__'', ''isPrototypeOf'',
      ''propertyIsEnumerable'', ''toString'', ''valueOf'', ''__proto__'',
      ''toLocaleString'']"

text \<open>
  Whether \<^verbatim>\<open>registrations[id]\<close> is truthy: an own entry is a registration object and
  an inherited member is a function or an object, all truthy; with neither, the read
  gives \<^verbatim>\<open>undefined\<close>.
\<close>

definition registration_found :: "(string \<rightharpoonup> event_registration) \<Rightarrow> string \<Rightarrow> bool" where
  "registration_found registrations txid =
     (case registrations txid of
        Some reg \<Rightarrow> True
      | None \<Rightarrow> txid \<in> set object_prototype_members)"

text \<open>\<^verbatim>\<open>_isAlreadyRegistered(eventHub)\<close>, lines 103-112.\<close>

definition isAlreadyRegistered ::
  "listener \<Rightarrow> hub_ref option \<Rightarrow> world \<Rightarrow> jsval + bool" where
  "isAlreadyRegistered l eh w =
     (case eh of
        None \<Rightarrow> Inl (JError ''Event hub not given'')
      | Some h \<Rightarrow>
          (let registrations = transactionRegistrations (hubs w h)
           in if registration_found registrations (transactionId l)
              then Inr True else Inr False))"

text \<open>
  \<^verbatim>\<open>register()\<close>, lines 34-57, and \<^verbatim>\<open>_registerWithNewEventHub()\<close>, lines 86-101, which
  call each other. The result is the thrown value or \<open>()\<close>, with the listener and the
  world as the call leaves them. The awaits are run to completion in place. The read
  of line 54 is made under the id \<^verbatim>\<open>registerTxEvent\<close> has just stored the registration
  under, so it finds that registration.
\<close>

function register :: "listener \<Rightarrow> world \<Rightarrow> (jsval + unit) \<times> listener \<times> world"
  and registerWithNewEventHub :: "listener \<Rightarrow> world \<Rightarrow> (jsval + unit) \<times> listener \<times> world"
where
  "register l0 w0 =
     (case super_register l0 w0 of (l, w) \<Rightarrow>
       (case eventHub l of
          None \<Rightarrow>
            registerWithNewEventHub l (logger_debug ''No event hub. Retrieving new one.'' [] w)
        | Some h \<Rightarrow>
           (case isAlreadyRegistered l (eventHub l) w of
              Inl e \<Rightarrow> (Inl e, l, w)
            | Inr already \<Rightarrow>
               (case
                  (if already then
                     (let wd = logger_debug
                            ''Event hub already has registrations. Generating new event hub instance.''
                            [] w
                      in if \<not> truthy (js_get (objs wd (options l)) ''fixedEventHub'')
                         then (case getEventHub (peer (hubs wd h)) True wd of
                                 (h', w') \<Rightarrow> (l\<lparr>eventHub := Some h'\<rparr>, w'))
                         else (case getFixedEventHub (peer (hubs wd h)) wd of
                                 (h', w') \<Rightarrow> (l\<lparr>eventHub := Some h'\<rparr>, w')))
                   else (l, w))
                of (l1, w1) \<Rightarrow>
                  (case eventHub l1 of
                     None \<Rightarrow> (Inl (JTypeError ''registerTxEvent''), l1, w1)
                   | Some h1 \<Rightarrow>
                      (case registerTxEvent h1 (transactionId l1) (listenerName l1)
                              (object_assign [''unregister'' \<mapsto> JBool True] (objs w1 (options l1)))
                              w1
                       of (txid, w2) \<Rightarrow>
                         (let l2 = l1\<lparr>registration := transactionRegistrations (hubs w2 h1) txid\<rparr>;
                              w3 = connect h1 (\<not> filtered l2) w2;
                              l3 = l2\<lparr>registered := True\<rparr>
                          in (Inr (), l3, w3))))))))"
| "registerWithNewEventHub l0 w0 =
     (case (if isregistered l0 then unregister l0 w0 else (l0, w0)) of (l, w) \<Rightarrow>
        if truthy (js_get (objs w (options l)) ''fixedEventHub'') \<and> eventHub l = None
        then (Inl (JError (''Cannot use a fixed event hub without setting an event hub ''
                            @ listenerName l)), l, w)
        else
          (case
             (if \<not> truthy (js_get (objs w (options l)) ''fixedEventHub'')
              then (case getReplayEventHub w of (h', w') \<Rightarrow> Inr (l\<lparr>eventHub := Some h'\<rparr>, w'))
              else (case eventHub l of
                      None \<Rightarrow> Inl (JTypeError ''_peer'')
                    | Some h \<Rightarrow>
                        (case getFixedEventHub (peer (hubs w h)) w of
                           (h', w') \<Rightarrow> Inr (l\<lparr>eventHub := Some h'\<rparr>, w'))))
           of
             Inl e \<Rightarrow> (Inl e, l, w)
           | Inr (l1, w1) \<Rightarrow>
               register l1 (set_property (options l1) ''disconnect'' (JBool True) w1)))"
  by pat_completeness auto

termination
proof (relation "measure (\<lambda>x. case x of
                            Inl (l, w) \<Rightarrow> (if eventHub l = None then 2 else 0)
                          | Inr (l, w) \<Rightarrow> 1)")
  show "wf (measure (\<lambda>x. case x of
                            Inl (l, w) \<Rightarrow> (if eventHub l = None then 2 else 0)
                          | Inr (l, w) \<Rightarrow> (1::nat)))"
    by simp
qed (auto simp: super_register_def split: if_splits option.splits prod.splits)

text \<open>Invoking the caller's callback: the invocation is recorded, the outcome returned.\<close>

definition invoke_callback :: "listener \<Rightarrow> jsval list \<Rightarrow> world \<Rightarrow> jsval option \<times> world" where
  "invoke_callback l args w = (eventCallback l args, w\<lparr>trace := trace w @ [Callback args]\<rparr>)"

text \<open>\<^verbatim>\<open>_onEvent(txid, status, blockNumber)\<close>, lines 66-78.\<close>

definition onEvent ::
  "(string \<Rightarrow> jsnum) \<Rightarrow> listener \<Rightarrow> world \<Rightarrow> jsval \<Rightarrow> jsval \<Rightarrow> jsval
     \<Rightarrow> (jsval + unit) \<times> listener \<times> world" where
  "onEvent toNum l w0 txid status blockNumber0 =
     (let w1 = logger_debug ''_onEvent: success for transaction %s'' [txid] w0;
          blockNumber = JNum (js_Number toNum blockNumber0)
      in case invoke_callback l [JNull, txid, status, blockNumber] w1 of (thrown, w2) \<Rightarrow>
           (let w3 = (case thrown of
                        None \<Rightarrow> w2
                      | Some err \<Rightarrow> logger_debug ''_onEvent error from callback: %s'' [err] w2)
            in case registration l of
                 None \<Rightarrow> (Inl (JTypeError ''unregister''), l, w3)
               | Some reg \<Rightarrow>
                   if truthy (js_get (reg_options reg) ''unregister'')
                   then (case unregister l w3 of (l', w') \<Rightarrow> (Inr (), l', w'))
                   else (Inr (), l, w3)))"

text \<open>\<^verbatim>\<open>_onError(error)\<close>, lines 80-83. The peer address is an argument of the debug
  line, so it is read from the bound hub before the callback is invoked.\<close>

definition onError :: "listener \<Rightarrow> world \<Rightarrow> jsval \<Rightarrow> (jsval + unit) \<times> listener \<times> world" where
  "onError l w0 error =
     (case eventHub l of
        None \<Rightarrow> (Inl (JTypeError ''getPeerAddr''), l, w0)
      | Some h \<Rightarrow>
          (case getPeerAddr h w0 of (addr, w1) \<Rightarrow>
             (let w2 = logger_debug ''_onError: received error from peer %s: %j''
                         [JStr addr, error] w1
              in case invoke_callback l [error] w2 of
                   (None, w3) \<Rightarrow> (Inr (), l, w3)
                 | (Some e, w3) \<Rightarrow> (Inl e, l, w3))))"

subsection \<open>Sequences of calls on a listener\<close>




subsection \<open>Reading the record of calls\<close>

text \<open>The argument lists the caller's callback was invoked with, in order.\<close>

fun callbacks :: "event list \<Rightarrow> jsval list list" where
  "callbacks [] = []"
| "callbacks (Callback args # es) = args # callbacks es"
| "callbacks (e # es) = callbacks es"

text \<open>The requests made to the event-hub manager, in order.\<close>

fun manager_requests :: "event list \<Rightarrow> manager_request list" where
  "manager_requests [] = []"
| "manager_requests (Manager req h # es) = req # manager_requests es"
| "manager_requests (e # es) = manager_requests es"

text \<open>The hubs \<^verbatim>\<open>registerTxEvent\<close> was called on and the options objects it was given.\<close>

fun watched_hubs :: "event list \<Rightarrow> hub_ref list" where
  "watched_hubs [] = []"
| "watched_hubs (RegisterTxEvent h txid owner opts # es) = h # watched_hubs es"
| "watched_hubs (e # es) = watched_hubs es"

fun passed_options :: "event list \<Rightarrow> js_object list" where
  "passed_options [] = []"
| "passed_options (RegisterTxEvent h txid owner opts # es) = opts # passed_options es"
| "passed_options (e # es) = passed_options es"

fun passed_option :: "string \<Rightarrow> event list \<Rightarrow> jsval list" where
  "passed_option k [] = []"
| "passed_option k (RegisterTxEvent h txid owner opts # es) = js_get opts k # passed_option k es"
| "passed_option k (e # es) = passed_option k es"

subsection \<open>Notation for the statements\<close>

text \<open>
  Whether the listener's options object asks for a fixed hub, the options object
  \<^verbatim>\<open>register()\<close> builds for \<^verbatim>\<open>registerTxEvent\<close>, whether line 108 finds something
  under the listener's transaction id in the table of hub \<open>h\<close>, and the manager request
  that resolves a conflict on hub \<open>h\<close>.
\<close>

abbreviation fixedEventHub :: "listener \<Rightarrow> world \<Rightarrow> bool" where
  "fixedEventHub l w \<equiv> truthy (js_get (objs w (options l)) ''fixedEventHub'')"

abbreviation merged_options :: "listener \<Rightarrow> world \<Rightarrow> js_object" where
  "merged_options l w \<equiv> object_assign [''unregister'' \<mapsto> JBool True] (objs w (options l))"

abbreviation already_registered :: "listener \<Rightarrow> world \<Rightarrow> hub_ref \<Rightarrow> bool" where
  "already_registered l w h \<equiv>
     registration_found (transactionRegistrations (hubs w h)) (transactionId l)"

abbreviation substitute_request :: "listener \<Rightarrow> world \<Rightarrow> hub_ref \<Rightarrow> manager_request" where
  "substitute_request l w h \<equiv>
     (if fixedEventHub l w then GetFixedEventHub (peer (hubs w h))
      else GetEventHub (peer (hubs w h)) True)"

subsection \<open>Example values\<close>

text \<open>
  A world with one shared hub, hub 0, that already watches transaction \<open>tx1\<close>, and
  idle hubs otherwise; every options reference denotes the given object; the manager
  answers its \<open>n\<close>-th call with hub \<open>n + 1\<close>. A listener is given by its transaction
  id, the random suffix of its name, its bound hub and its callback.
\<close>

definition shared_hub :: hub where
  "shared_hub =
     \<lparr>peer = ''peer0'', peerAddr = ''grpc://peer0:7051'',
      transactionRegistrations =
        [''tx1'' \<mapsto> \<lparr>reg_listener = ''tx10.25'',
                      reg_options = [''unregister'' \<mapsto> JBool True]\<rparr>]\<rparr>"

definition idle_hub :: hub where
  "idle_hub =
     \<lparr>peer = ''peer0'', peerAddr = ''grpc://peer0:7051'',
      transactionRegistrations = Map.empty\<rparr>"

definition example_world :: "js_object \<Rightarrow> world" where
  "example_world opts =
     \<lparr>hubs = (\<lambda>h. if h = 0 then shared_hub else idle_hub),
      objs = (\<lambda>r. opts),
      answer = (\<lambda>n req. Suc n),
      calls = 0, trace = [], debug_log = []\<rparr>"

definition example_listener ::
  "string \<Rightarrow> string \<Rightarrow> hub_ref option \<Rightarrow> (jsval list \<Rightarrow> jsval option) \<Rightarrow> listener" where
  "example_listener txid rnd eh cb =
     \<lparr>transactionId = txid, listenerName = txid @ rnd, eventCallback = cb, options = 0,
      eventHub = eh, registration = None, registered = False, filtered = True\<rparr>"

definition watching_listener :: "(jsval list \<Rightarrow> jsval option) \<Rightarrow> listener" where
  "watching_listener cb =
     (example_listener ''tx1'' ''0.25'' (Some 0) cb)
       \<lparr>registration := transactionRegistrations shared_hub ''tx1'', registered := True\<rparr>"

definition callback_returns :: "jsval list \<Rightarrow> jsval option" where
  "callback_returns args = None"

definition callback_throws :: "jsval list \<Rightarrow> jsval option" where
  "callback_throws args = Some (JError ''boom'')"

text \<open>
  The runtime's string-to-number conversion, as far as the examples use it: the
  string \<^verbatim>\<open>"42"\<close> denotes 42.
\<close>

definition toNum_42 :: "string \<Rightarrow> jsnum" where
  "toNum_42 s = (if s = ''42'' then Finite 42 else NaN)"

text \<open>The same, for two strings: \<^verbatim>\<open>"42"\<close> denotes 42 and \<^verbatim>\<open>"7"\<close> denotes 7.\<close>

definition toNum_7_42 :: "string \<Rightarrow> jsnum" where
  "toNum_7_42 s = (if s = ''42'' then Finite 42 else if s = ''7'' then Finite 7 else NaN)"

text \<open>A world whose manager answers every request with hub 0, the shared hub itself.\<close>

definition same_hub_world :: "js_object \<Rightarrow> world" where
  "same_hub_world opts =
     \<lparr>hubs = (\<lambda>h. if h = 0 then shared_hub else idle_hub),
      objs = (\<lambda>r. opts),
      answer = (\<lambda>n req. 0),
      calls = 0, trace = [], debug_log = []\<rparr>"

section \<open>Properties\<close>

subsection \<open>Auxiliary facts\<close>

declare register.simps [simp del] registerWithNewEventHub.simps [simp del]

lemmas collab_defs = super_register_def isAlreadyRegistered_def registration_found_def logger_debug_def getEventHub_def
  getFixedEventHub_def getReplayEventHub_def manager_call_def registerTxEvent_def connect_def
  set_property_def unregister_def super_unregister_def unregisterTxEvent_def isregistered_def
  getPeerAddr_def

lemmas example_defs = shared_hub_def idle_hub_def example_world_def example_listener_def
  toNum_7_42_def same_hub_world_def
  watching_listener_def callback_returns_def callback_throws_def toNum_42_def

lemma callbacks_append: "callbacks (xs @ ys) = callbacks xs @ callbacks ys"
  by (induction xs rule: callbacks.induct) simp_all

lemma manager_requests_append: "manager_requests (xs @ ys) = manager_requests xs @ manager_requests ys"
  by (induction xs rule: manager_requests.induct) simp_all

lemma watched_hubs_append: "watched_hubs (xs @ ys) = watched_hubs xs @ watched_hubs ys"
  by (induction xs rule: watched_hubs.induct) simp_all

lemma passed_options_append: "passed_options (xs @ ys) = passed_options xs @ passed_options ys"
  by (induction xs rule: passed_options.induct) simp_all


lemma passed_option_of_options:
  "passed_options evs = [opts] \<Longrightarrow> passed_option k evs = [js_get opts k]"
proof (induction evs rule: passed_options.induct)
  case (2 h txid owner opts' es)
  then have "passed_options es = []" and "opts' = opts" by simp_all
  moreover have "passed_options es = [] \<Longrightarrow> passed_option k es = []"
    by (induction es rule: passed_options.induct) simp_all
  ultimately show ?case by simp
qed simp_all

text \<open>
  The two ways through \<^verbatim>\<open>register()\<close> with a hub bound: the read of the hub's
  table under the transaction id finds nothing, or it finds something and the hub is
  replaced first.
\<close>

lemma register_free:
  assumes "eventHub l = Some h" "\<not> already_registered l w h"
  shows "register l w =
    (Inr (),
     l\<lparr>registration := Some \<lparr>reg_listener = listenerName l, reg_options = merged_options l w\<rparr>,
       registered := True\<rparr>,
     w\<lparr>hubs := (hubs w)(h := (hubs w h)\<lparr>transactionRegistrations :=
            (transactionRegistrations (hubs w h))(transactionId l \<mapsto>
               \<lparr>reg_listener = listenerName l, reg_options = merged_options l w\<rparr>)\<rparr>),
       trace := trace w @ [RegisterTxEvent h (transactionId l) (listenerName l) (merged_options l w),
                           Connect h (\<not> filtered l)]\<rparr>)"
  using assms by (simp add: register.simps registerWithNewEventHub.simps collab_defs Let_def)

lemma register_conflict:
  assumes "eventHub l = Some h" "already_registered l w h"
  shows "register l w =
    (let req = substitute_request l w h; h' = answer w (calls w) req;
         reg = \<lparr>reg_listener = listenerName l, reg_options = merged_options l w\<rparr> in
    (Inr (),
     l\<lparr>eventHub := Some h', registration := Some reg, registered := True\<rparr>,
     w\<lparr>hubs := (hubs w)(h' := (hubs w h')\<lparr>transactionRegistrations :=
            (transactionRegistrations (hubs w h'))(transactionId l \<mapsto> reg)\<rparr>),
       calls := Suc (calls w),
       trace := trace w @ [Manager req h',
                           RegisterTxEvent h' (transactionId l) (listenerName l) (merged_options l w),
                           Connect h' (\<not> filtered l)],
       debug_log := debug_log w @ [Debug ''Event hub already has registrations. Generating new event hub instance.'' []]\<rparr>))"
  using assms by (simp add: register.simps registerWithNewEventHub.simps collab_defs Let_def)

lemma register_bound:
  assumes "eventHub l = Some h"
  shows "\<exists>l' w' evs. register l w = (Inr (), l', w') \<and> trace w' = trace w @ evs \<and>
     passed_options evs = [merged_options l w] \<and>
     manager_requests evs =
       (if already_registered l w h then [substitute_request l w h] else []) \<and>
     objs w' = objs w \<and> options l' = options l \<and> registered l' \<and> eventHub l' \<noteq> None"
proof (cases "already_registered l w h")
  case False
  show ?thesis
    unfolding register_free [OF assms False] using assms False by simp
next
  case True
  show ?thesis
    unfolding register_conflict [OF assms True] using assms True by (simp add: Let_def)
qed



text \<open>
  With no hub bound, \<^verbatim>\<open>register()\<close> enters the fallback, which throws, or acquires
  a hub and calls \<^verbatim>\<open>register()\<close> again.
\<close>

lemma register_unbound_enters_fallback:
  assumes "eventHub l = None"
  shows "register l w =
    registerWithNewEventHub l (logger_debug ''No event hub. Retrieving new one.'' [] w)"
  using assms by (simp add: register.simps [of l w] super_register_def)

lemma register_unbound_fixed:
  assumes "eventHub l = None" "fixedEventHub l w"
  shows "register l w =
    (Inl (JError (''Cannot use a fixed event hub without setting an event hub '' @ listenerName l)),
     l\<lparr>registered := False\<rparr>,
     w\<lparr>debug_log := debug_log w @ [Debug ''No event hub. Retrieving new one.'' []]\<rparr>)"
  using assms by (simp add: register.simps registerWithNewEventHub.simps collab_defs Let_def)

lemma register_unbound_replay:
  assumes "eventHub l = None" "\<not> fixedEventHub l w"
  shows "register l w =
    register (l\<lparr>eventHub := Some (answer w (calls w) GetReplayEventHub), registered := False\<rparr>)
      (w\<lparr>objs := (objs w)(options l := (objs w (options l))(''disconnect'' \<mapsto> JBool True)),
         calls := Suc (calls w),
         trace := trace w @ [Manager GetReplayEventHub (answer w (calls w) GetReplayEventHub)],
         debug_log := debug_log w @ [Debug ''No event hub. Retrieving new one.'' []]\<rparr>)"
  using assms by (simp add: register.simps registerWithNewEventHub.simps collab_defs Let_def)

lemma fallback_bound_fixed:
  assumes "eventHub l = Some h" "fixedEventHub l w"
  shows "registerWithNewEventHub l w =
    (let h' = answer w (calls w) (GetFixedEventHub (peer (hubs w h))) in
     register (l\<lparr>eventHub := Some h', registered := False\<rparr>)
      (w\<lparr>hubs := (if registered l
                   then (hubs w)(h := (hubs w h)\<lparr>transactionRegistrations :=
                          (transactionRegistrations (hubs w h))(transactionId l := None)\<rparr>)
                   else hubs w),
         objs := (objs w)(options l := (objs w (options l))(''disconnect'' \<mapsto> JBool True)),
         calls := Suc (calls w),
         trace := trace w @ (if registered l then [UnregisterTxEvent h (transactionId l)] else [])
                    @ [Manager (GetFixedEventHub (peer (hubs w h))) h']\<rparr>))"
  using assms by (simp add: register.simps registerWithNewEventHub.simps collab_defs Let_def)

lemma fallback_not_fixed:
  assumes "\<not> fixedEventHub l w"
  shows "registerWithNewEventHub l w =
    (let h' = answer w (calls w) GetReplayEventHub;
         bound = (if registered l then eventHub l else None) in
     register (l\<lparr>eventHub := Some h', registered := False\<rparr>)
      (w\<lparr>hubs := (case bound of
                     None \<Rightarrow> hubs w
                   | Some h \<Rightarrow> (hubs w)(h := (hubs w h)\<lparr>transactionRegistrations :=
                          (transactionRegistrations (hubs w h))(transactionId l := None)\<rparr>)),
         objs := (objs w)(options l := (objs w (options l))(''disconnect'' \<mapsto> JBool True)),
         calls := Suc (calls w),
         trace := trace w
                    @ (case bound of None \<Rightarrow> [] | Some h \<Rightarrow> [UnregisterTxEvent h (transactionId l)])
                    @ [Manager GetReplayEventHub h']\<rparr>))"
  using assms
  by (cases "eventHub l")
     (simp_all add: register.simps registerWithNewEventHub.simps collab_defs Let_def)

lemma fallback_enters_register:
  assumes "\<not> (fixedEventHub l w \<and> eventHub l = None)"
  shows "\<exists>l1 w1 h1 pre. registerWithNewEventHub l w = register l1 w1 \<and>
     eventHub l1 = Some h1 \<and> options l1 = options l \<and>
     objs w1 = (objs w)(options l := (objs w (options l))(''disconnect'' \<mapsto> JBool True)) \<and>
     trace w1 = trace w @ pre \<and> passed_options pre = [] \<and>
     manager_requests pre =
       [if fixedEventHub l w then GetFixedEventHub (peer (hubs w (the (eventHub l))))
        else GetReplayEventHub]"
proof (cases "fixedEventHub l w")
  case True
  with assms obtain h where h: "eventHub l = Some h" by auto
  define h' where "h' = answer w (calls w) (GetFixedEventHub (peer (hubs w h)))"
  define pre where "pre = (if registered l then [UnregisterTxEvent h (transactionId l)] else [])
                    @ [Manager (GetFixedEventHub (peer (hubs w h))) h']"
  define l1 where "l1 = l\<lparr>eventHub := Some h', registered := False\<rparr>"
  define w1 where "w1 = w\<lparr>hubs := (if registered l
                   then (hubs w)(h := (hubs w h)\<lparr>transactionRegistrations :=
                          (transactionRegistrations (hubs w h))(transactionId l := None)\<rparr>)
                   else hubs w),
         objs := (objs w)(options l := (objs w (options l))(''disconnect'' \<mapsto> JBool True)),
         calls := Suc (calls w),
         trace := trace w @ pre\<rparr>"
  have "registerWithNewEventHub l w = register l1 w1"
    unfolding fallback_bound_fixed [OF h True] l1_def w1_def pre_def h'_def
    by (simp add: Let_def)
  moreover have "eventHub l1 = Some h'" "options l1 = options l"
    by (simp_all add: l1_def)
  moreover have "objs w1 = (objs w)(options l := (objs w (options l))(''disconnect'' \<mapsto> JBool True))"
    "trace w1 = trace w @ pre"
    by (simp_all add: w1_def)
  moreover have "passed_options pre = []"
    "manager_requests pre = [GetFixedEventHub (peer (hubs w (the (eventHub l))))]"
    by (simp_all add: pre_def h passed_options_append manager_requests_append)
  ultimately show ?thesis using True by auto
next
  case False
  define h' where "h' = answer w (calls w) GetReplayEventHub"
  define bound where "bound = (if registered l then eventHub l else None)"
  define pre where "pre = (case bound of None \<Rightarrow> [] | Some h \<Rightarrow> [UnregisterTxEvent h (transactionId l)])
                    @ [Manager GetReplayEventHub h']"
  define l1 where "l1 = l\<lparr>eventHub := Some h', registered := False\<rparr>"
  define w1 where "w1 = w\<lparr>hubs := (case bound of
                     None \<Rightarrow> hubs w
                   | Some h \<Rightarrow> (hubs w)(h := (hubs w h)\<lparr>transactionRegistrations :=
                          (transactionRegistrations (hubs w h))(transactionId l := None)\<rparr>)),
         objs := (objs w)(options l := (objs w (options l))(''disconnect'' \<mapsto> JBool True)),
         calls := Suc (calls w),
         trace := trace w @ pre\<rparr>"
  have "registerWithNewEventHub l w = register l1 w1"
    unfolding fallback_not_fixed [OF False] l1_def w1_def pre_def h'_def bound_def
    by (simp add: Let_def)
  moreover have "eventHub l1 = Some h'" "options l1 = options l"
    by (simp_all add: l1_def)
  moreover have "objs w1 = (objs w)(options l := (objs w (options l))(''disconnect'' \<mapsto> JBool True))"
    "trace w1 = trace w @ pre"
    by (simp_all add: w1_def)
  moreover have "passed_options pre = []" "manager_requests pre = [GetReplayEventHub]"
    by (simp_all add: pre_def passed_options_append manager_requests_append split: option.splits)
  ultimately show ?thesis using False by auto
qed








text \<open>What a call of the fallback asks of the manager, in each of its cases.\<close>

lemma fallback_unbound_fixed:
  assumes "eventHub l = None" "fixedEventHub l w"
  shows "registerWithNewEventHub l w =
    (Inl (JError (''Cannot use a fixed event hub without setting an event hub '' @ listenerName l)),
     l\<lparr>registered := False\<rparr>, w)"
  using assms by (simp add: registerWithNewEventHub.simps collab_defs Let_def)

lemma fallback_effect:
  "\<exists>res l' w' evs. registerWithNewEventHub l w = (res, l', w') \<and> trace w' = trace w @ evs \<and>
     (if fixedEventHub l w \<and> eventHub l = None
      then res = Inl (JError (''Cannot use a fixed event hub without setting an event hub ''
                               @ listenerName l)) \<and>
           evs = [] \<and> eventHub l' = None
      else res = Inr () \<and> eventHub l' \<noteq> None \<and> registered l' \<and>
           (\<exists>reqs. manager_requests evs =
                (if fixedEventHub l w then GetFixedEventHub (peer (hubs w (the (eventHub l))))
                 else GetReplayEventHub) # reqs \<and>
              (fixedEventHub l w \<or> (\<forall>p. GetFixedEventHub p \<notin> set reqs))))"
proof (cases "fixedEventHub l w \<and> eventHub l = None")
  case True
  then show ?thesis
    using fallback_unbound_fixed [of l w] by simp
next
  case False
  from fallback_enters_register [OF False] obtain l1 w1 h1 pre where
    eq: "registerWithNewEventHub l w = register l1 w1"
    and l1: "eventHub l1 = Some h1" "options l1 = options l"
    and w1: "objs w1 = (objs w)(options l := (objs w (options l))(''disconnect'' \<mapsto> JBool True))"
      "trace w1 = trace w @ pre"
      "manager_requests pre =
         [if fixedEventHub l w then GetFixedEventHub (peer (hubs w (the (eventHub l))))
          else GetReplayEventHub]"
    by blast
  from register_bound [OF l1(1), of w1] obtain l' w' evs where
    r: "register l1 w1 = (Inr (), l', w')" "trace w' = trace w1 @ evs"
      "manager_requests evs =
         (if already_registered l1 w1 h1 then [substitute_request l1 w1 h1] else [])"
      "registered l'" "eventHub l' \<noteq> None"
    by blast
  have same: "fixedEventHub l1 w1 = fixedEventHub l w"
    using l1(2) w1(1) by (simp add: js_get_def)
  have res: "registerWithNewEventHub l w = (Inr (), l', w')"
    using eq r(1) by simp
  have tr: "trace w' = trace w @ (pre @ evs)"
    using r(2) w1(2) by simp
  have reqs: "manager_requests (pre @ evs) =
      (if fixedEventHub l w then GetFixedEventHub (peer (hubs w (the (eventHub l))))
       else GetReplayEventHub) # manager_requests evs"
    using w1(3) by (simp add: manager_requests_append)
  have later: "fixedEventHub l w \<or> (\<forall>p. GetFixedEventHub p \<notin> set (manager_requests evs))"
    using r(3) same by auto
  show ?thesis
    using False res tr reqs later r(4,5) by (metis (no_types, lifting))
qed

subsection \<open>Duplicate registration on a shared hub\<close>




subsection \<open>The event handler\<close>

text \<open>
  C2. Whatever the hub delivers as block number, the event handler invokes the
  caller's callback exactly once, with \<^verbatim>\<open>null\<close>, the transaction id, the status and a
  number: the delivered number itself when a number is delivered, and the number the
  delivered string denotes when a string is delivered.
\<close>

theorem onEvent_invokes_callback_once:
  "\<exists>res l' w' n. onEvent toNum l w txid status bn = (res, l', w') \<and>
     callbacks (trace w') = callbacks (trace w) @ [[JNull, txid, status, JNum n]] \<and>
     (\<forall>m. bn = JNum m \<longrightarrow> n = m) \<and>
     (\<forall>s. bn = JStr s \<longrightarrow> n = toNum s) \<and>
     n = js_Number toNum bn \<and>
     js_typeof (last (callbacks (trace w')) ! 3) = ''number''"
  by (auto simp: onEvent_def invoke_callback_def collab_defs Let_def callbacks_append
           split: option.splits)

theorem onEvent_invokes_callback_once_witness:
  "(\<exists>res l' w'. onEvent toNum_7_42 (watching_listener callback_returns) (example_world Map.empty)
                   (JStr ''tx1'') (JStr ''VALID'') (JStr ''42'') = (res, l', w') \<and>
      callbacks (trace w') = [[JNull, JStr ''tx1'', JStr ''VALID'', JNum (Finite 42)]]) \<and>
   (\<exists>res l' w'. onEvent toNum_7_42 (watching_listener callback_returns) (example_world Map.empty)
                   (JStr ''tx1'') (JStr ''VALID'') (JStr ''7'') = (res, l', w') \<and>
      callbacks (trace w') = [[JNull, JStr ''tx1'', JStr ''VALID'', JNum (Finite 7)]]) \<and>
   (\<exists>res l' w'. onEvent toNum_7_42 (watching_listener callback_returns) (example_world Map.empty)
                   (JStr ''tx1'') (JStr ''VALID'') (JNum (Finite 43)) = (res, l', w') \<and>
      callbacks (trace w') = [[JNull, JStr ''tx1'', JStr ''VALID'', JNum (Finite 43)]])"
  using onEvent_invokes_callback_once
          [where toNum = toNum_7_42 and l = "watching_listener callback_returns"
             and w = "example_world Map.empty" and txid = "JStr ''tx1''"
             and status = "JStr ''VALID''" and bn = "JStr ''42''"]
        onEvent_invokes_callback_once
          [where toNum = toNum_7_42 and l = "watching_listener callback_returns"
             and w = "example_world Map.empty" and txid = "JStr ''tx1''"
             and status = "JStr ''VALID''" and bn = "JStr ''7''"]
        onEvent_invokes_callback_once
          [where toNum = toNum_7_42 and l = "watching_listener callback_returns"
             and w = "example_world Map.empty" and txid = "JStr ''tx1''"
             and status = "JStr ''VALID''" and bn = "JNum (Finite 43)"]
  by (auto simp: example_defs)

text \<open>
  C3. When the caller's callback throws during a commit event, the event handler
  returns normally and the thrown value is only written to the debug log; when the
  captured registration's \<open>unregister\<close> is true, the listener is then unregistered: its
  flag is false and the watch for its transaction id is removed from the bound hub.
\<close>

theorem onEvent_isolates_callback_exception:
  assumes "registration l = Some reg"
    and "eventCallback l [JNull, txid, status, JNum (js_Number toNum bn)] = Some err"
  shows "\<exists>l' w'. onEvent toNum l w txid status bn = (Inr (), l', w') \<and>
     debug_log w' = debug_log w @
       [Debug ''_onEvent: success for transaction %s'' [txid],
        Debug ''_onEvent error from callback: %s'' [err]] \<and>
     (truthy (js_get (reg_options reg) ''unregister'') \<longrightarrow>
        \<not> registered l' \<and>
        (\<forall>h. eventHub l = Some h \<longrightarrow>
           transactionRegistrations (hubs w' h) (transactionId l) = None \<and>
           trace w' = trace w @
             [Callback [JNull, txid, status, JNum (js_Number toNum bn)],
              UnregisterTxEvent h (transactionId l)]))"
  using assms
  by (simp add: onEvent_def invoke_callback_def collab_defs Let_def split: option.splits)

theorem onEvent_isolates_callback_exception_witness:
  "registration (watching_listener callback_throws) =
     Some \<lparr>reg_listener = ''tx10.25'', reg_options = [''unregister'' \<mapsto> JBool True]\<rparr> \<and>
   eventCallback (watching_listener callback_throws)
     [JNull, JStr ''tx1'', JStr ''VALID'', JNum (js_Number toNum_42 (JStr ''42''))]
     = Some (JError ''boom'') \<and>
   truthy (js_get [''unregister'' \<mapsto> JBool True] ''unregister'') \<and>
   (\<exists>l' w'. onEvent toNum_42 (watching_listener callback_throws) (example_world Map.empty)
               (JStr ''tx1'') (JStr ''VALID'') (JStr ''42'') = (Inr (), l', w') \<and>
      \<not> registered l' \<and>
      transactionRegistrations (hubs w' 0) ''tx1'' = None \<and>
      trace w' = [Callback [JNull, JStr ''tx1'', JStr ''VALID'', JNum (Finite 42)],
                  UnregisterTxEvent 0 ''tx1''] \<and>
      debug_log w' = [Debug ''_onEvent: success for transaction %s'' [JStr ''tx1''],
                      Debug ''_onEvent error from callback: %s'' [JError ''boom'']])"
  using onEvent_isolates_callback_exception
          [of "watching_listener callback_throws"
              "\<lparr>reg_listener = ''tx10.25'', reg_options = [''unregister'' \<mapsto> JBool True]\<rparr>"
              "JStr ''tx1''" "JStr ''VALID''" toNum_42 "JStr ''42''" "JError ''boom''"
              "example_world Map.empty"]
  by (auto simp: example_defs js_get_def)

subsection \<open>A fixed hub that was never supplied\<close>

text \<open>
  C4. With \<open>fixedEventHub\<close> set and no hub bound, \<^verbatim>\<open>register()\<close> fails with the
  error whose message names the listener; the error is the result of the call, the
  callback is not invoked, and no request to the manager and no hub method is made.
\<close>

theorem register_fixed_without_hub_fails:
  assumes "eventHub l = None" and "fixedEventHub l w"
  shows "\<exists>l' w'. register l w =
       (Inl (JError (''Cannot use a fixed event hub without setting an event hub ''
                      @ listenerName l)), l', w') \<and>
     trace w' = trace w \<and> calls w' = calls w \<and> hubs w' = hubs w \<and> eventHub l' = None \<and>
     \<not> registered l'"
  unfolding register_unbound_fixed [OF assms] using assms by simp

theorem register_fixed_without_hub_fails_witness:
  "eventHub (example_listener ''tx1'' ''0.5'' None callback_returns) = None \<and>
   fixedEventHub (example_listener ''tx1'' ''0.5'' None callback_returns)
     (example_world [''fixedEventHub'' \<mapsto> JBool True]) \<and>
   (\<exists>l' w'. register (example_listener ''tx1'' ''0.5'' None callback_returns)
               (example_world [''fixedEventHub'' \<mapsto> JBool True]) =
        (Inl (JError ''Cannot use a fixed event hub without setting an event hub tx10.5''),
         l', w') \<and>
      trace w' = [] \<and> calls w' = 0)"
  using register_fixed_without_hub_fails
          [of "example_listener ''tx1'' ''0.5'' None callback_returns"
              "example_world [''fixedEventHub'' \<mapsto> JBool True]"]
  by (auto simp: example_defs js_get_def)

subsection \<open>The error handler\<close>

text \<open>
  C5. On an error event the error handler invokes the caller's callback with the
  error as its only argument, and does not unregister: the listener and every hub's
  table are as before.
\<close>

theorem onError_passes_error_only:
  assumes "eventHub l = Some h"
  shows "\<exists>res w'. onError l w err = (res, l, w') \<and>
     trace w' = trace w @ [GetPeerAddr h, Callback [err]] \<and>
     hubs w' = hubs w"
  using assms
  by (simp add: onError_def invoke_callback_def collab_defs Let_def split: option.splits)

theorem onError_passes_error_only_witness:
  "eventHub (watching_listener callback_returns) = Some 0 \<and>
   (\<exists>res w'. onError (watching_listener callback_returns) (example_world Map.empty)
                (JError ''peer down'') = (res, watching_listener callback_returns, w') \<and>
      callbacks (trace w') = [[JError ''peer down'']] \<and>
      transactionRegistrations (hubs w' 0) ''tx1'' \<noteq> None \<and>
      registered (watching_listener callback_returns))"
  using onError_passes_error_only
          [of "watching_listener callback_returns" 0 "example_world Map.empty"
              "JError ''peer down''"]
  by (auto simp: example_defs)

subsection \<open>The options given to the hub\<close>




subsection \<open>The hub-acquisition fallback\<close>

text \<open>
  C7. With no hub bound and \<open>fixedEventHub\<close> not set, \<^verbatim>\<open>register()\<close> asks the
  manager for a replay hub, sets \<open>disconnect\<close> to true, calls \<^verbatim>\<open>register()\<close> again with
  the acquired hub bound, and completes with a hub bound and the listener flagged
  registered.
\<close>

theorem register_acquires_replay_hub:
  assumes "eventHub l = None" and "\<not> fixedEventHub l w"
  shows "\<exists>l' w' rest. register l w = (Inr (), l', w') \<and>
     eventHub l' \<noteq> None \<and> registered l' \<and>
     trace w' = trace w @
        Manager GetReplayEventHub (answer w (calls w) GetReplayEventHub) # rest \<and>
     passed_option ''disconnect'' rest = [JBool True] \<and>
     js_get (objs w' (options l')) ''disconnect'' = JBool True \<and>
     register l w =
       (case getReplayEventHub (logger_debug ''No event hub. Retrieving new one.'' [] w) of
          (h0, w0) \<Rightarrow>
            register (l\<lparr>eventHub := Some h0, registered := False\<rparr>)
              (set_property (options l) ''disconnect'' (JBool True) w0))"
proof -
  define h0 where "h0 = answer w (calls w) GetReplayEventHub"
  define l1 where "l1 = l\<lparr>eventHub := Some h0, registered := False\<rparr>"
  define w1 where "w1 = w\<lparr>objs := (objs w)(options l := (objs w (options l))(''disconnect'' \<mapsto> JBool True)),
         calls := Suc (calls w),
         trace := trace w @ [Manager GetReplayEventHub h0],
         debug_log := debug_log w @ [Debug ''No event hub. Retrieving new one.'' []]\<rparr>"
  have eq: "register l w = register l1 w1"
    unfolding register_unbound_replay [OF assms] l1_def w1_def h0_def by simp
  have bound: "eventHub l1 = Some h0"
    by (simp add: l1_def)
  from register_bound [OF bound, of w1] obtain l' w' evs where
    r: "register l1 w1 = (Inr (), l', w')" "trace w' = trace w1 @ evs"
      "passed_options evs = [merged_options l1 w1]" "objs w' = objs w1"
      "options l' = options l1" "registered l'" "eventHub l' \<noteq> None"
    by blast
  have res: "register l w = (Inr (), l', w')"
    using eq r(1) by simp
  have po: "passed_option ''disconnect'' evs = [JBool True]"
    using passed_option_of_options [OF r(3), of "''disconnect''"]
    by (simp add: l1_def w1_def object_assign_def js_get_def)
  have jg: "js_get (objs w' (options l')) ''disconnect'' = JBool True"
    using r(4,5) by (simp add: l1_def w1_def js_get_def)
  have tr: "trace w' = trace w @ Manager GetReplayEventHub (answer w (calls w) GetReplayEventHub) # evs"
    using r(2) by (simp add: w1_def h0_def)
  have "register l1 w1 =
       (case getReplayEventHub (logger_debug ''No event hub. Retrieving new one.'' [] w) of
          (h0, w0) \<Rightarrow>
            register (l\<lparr>eventHub := Some h0, registered := False\<rparr>)
              (set_property (options l) ''disconnect'' (JBool True) w0))"
    unfolding l1_def w1_def h0_def
    by (simp add: collab_defs Let_def) (rule arg_cong [where f = "register _"], simp)
  with eq have rec: "register l w =
       (case getReplayEventHub (logger_debug ''No event hub. Retrieving new one.'' [] w) of
          (h0, w0) \<Rightarrow>
            register (l\<lparr>eventHub := Some h0, registered := False\<rparr>)
              (set_property (options l) ''disconnect'' (JBool True) w0))"
    by simp
  from res r(7) r(6) tr po jg rec show ?thesis
    by blast
qed

theorem register_acquires_replay_hub_witness:
  "eventHub (example_listener ''tx1'' ''0.5'' None callback_returns) = None \<and>
   \<not> fixedEventHub (example_listener ''tx1'' ''0.5'' None callback_returns)
       (example_world Map.empty) \<and>
   (\<exists>l' w' rest. register (example_listener ''tx1'' ''0.5'' None callback_returns)
                    (example_world Map.empty) = (Inr (), l', w') \<and>
      eventHub l' \<noteq> None \<and> registered l' \<and>
      trace w' = Manager GetReplayEventHub 1 # rest \<and>
      passed_option ''disconnect'' rest = [JBool True] \<and>
      js_get (objs w' (options l')) ''disconnect'' = JBool True)"
  using register_acquires_replay_hub
          [of "example_listener ''tx1'' ''0.5'' None callback_returns" "example_world Map.empty"]
  by (auto simp: example_defs js_get_def)

text \<open>
  The claim C8 as stated, that with \<open>fixedEventHub\<close> set and the hub reference cleared
  the fallback re-acquires a fixed hub, fails: the call ends with the error of C4 and
  the manager is never asked.
\<close>

theorem fixed_hub_not_reacquired_counterexample:
  "eventHub (example_listener ''tx1'' ''0.5'' None callback_returns) = None \<and>
   fixedEventHub (example_listener ''tx1'' ''0.5'' None callback_returns)
     (example_world [''fixedEventHub'' \<mapsto> JBool True]) \<and>
   fst (register (example_listener ''tx1'' ''0.5'' None callback_returns)
          (example_world [''fixedEventHub'' \<mapsto> JBool True]))
     = Inl (JError ''Cannot use a fixed event hub without setting an event hub tx10.5'') \<and>
   manager_requests
     (trace (snd (snd (register (example_listener ''tx1'' ''0.5'' None callback_returns)
                         (example_world [''fixedEventHub'' \<mapsto> JBool True])))))
     = [] \<and>
   eventHub (fst (snd (register (example_listener ''tx1'' ''0.5'' None callback_returns)
                         (example_world [''fixedEventHub'' \<mapsto> JBool True]))))
     = None"
  by (simp add: register.simps registerWithNewEventHub.simps collab_defs example_defs
        js_get_def Let_def)

text \<open>
  C8, amended. With \<open>fixedEventHub\<close> set, a \<^verbatim>\<open>register()\<close> call that enters the fallback
  with the hub reference cleared fails with the configuration error and asks the
  manager for nothing. The fallback asks the manager for its fixed handle only when it
  is entered with \<open>fixedEventHub\<close> set and a hub still bound; then it asks for the fixed
  handle of that hub's peer first and completes with a hub bound and the listener
  flagged registered. A \<^verbatim>\<open>register()\<close> call with no hub bound, the only way
  \<^verbatim>\<open>register()\<close> enters the fallback, never asks for the fixed handle.
\<close>

theorem fallback_fixed_needs_bound_hub:
  "(fixedEventHub l w \<and> eventHub l = None \<longrightarrow>
      (\<exists>l' w'. register l w =
         (Inl (JError (''Cannot use a fixed event hub without setting an event hub ''
                        @ listenerName l)), l', w') \<and>
         trace w' = trace w \<and> eventHub l' = None)) \<and>
   (\<exists>res l' w' evs. registerWithNewEventHub l w = (res, l', w') \<and> trace w' = trace w @ evs \<and>
      (\<forall>p. GetFixedEventHub p \<in> set (manager_requests evs) \<longrightarrow>
           fixedEventHub l w \<and> eventHub l \<noteq> None) \<and>
      (\<forall>h. fixedEventHub l w \<and> eventHub l = Some h \<longrightarrow>
           res = Inr () \<and>
           (\<exists>reqs. manager_requests evs = GetFixedEventHub (peer (hubs w h)) # reqs) \<and>
           eventHub l' \<noteq> None \<and> registered l')) \<and>
   (eventHub l = None \<longrightarrow>
      (\<exists>res l' w' evs. register l w = (res, l', w') \<and> trace w' = trace w @ evs \<and>
         (\<forall>p. GetFixedEventHub p \<notin> set (manager_requests evs))))"
proof (intro conjI impI)
  assume a: "fixedEventHub l w \<and> eventHub l = None"
  then have none: "eventHub l = None" and fixed: "fixedEventHub l w"
    by simp_all
  show "\<exists>l' w'. register l w =
         (Inl (JError (''Cannot use a fixed event hub without setting an event hub ''
                        @ listenerName l)), l', w') \<and>
         trace w' = trace w \<and> eventHub l' = None"
    unfolding register_unbound_fixed [OF none fixed] using none by simp
next
  from fallback_effect [of l w] obtain res l' w' evs where
    r: "registerWithNewEventHub l w = (res, l', w')" "trace w' = trace w @ evs"
    and c: "if fixedEventHub l w \<and> eventHub l = None
      then res = Inl (JError (''Cannot use a fixed event hub without setting an event hub ''
                               @ listenerName l)) \<and>
           evs = [] \<and> eventHub l' = None
      else res = Inr () \<and> eventHub l' \<noteq> None \<and> registered l' \<and>
           (\<exists>reqs. manager_requests evs =
                (if fixedEventHub l w then GetFixedEventHub (peer (hubs w (the (eventHub l))))
                 else GetReplayEventHub) # reqs \<and>
              (fixedEventHub l w \<or> (\<forall>p. GetFixedEventHub p \<notin> set reqs)))"
    by blast
  have only: "fixedEventHub l w \<and> eventHub l \<noteq> None"
    if "GetFixedEventHub p \<in> set (manager_requests evs)" for p
    using c that by (auto split: if_splits)
  have bound: "res = Inr () \<and>
           (\<exists>reqs. manager_requests evs = GetFixedEventHub (peer (hubs w h)) # reqs) \<and>
           eventHub l' \<noteq> None \<and> registered l'"
    if "fixedEventHub l w \<and> eventHub l = Some h" for h
    using c that by auto
  show "\<exists>res l' w' evs. registerWithNewEventHub l w = (res, l', w') \<and> trace w' = trace w @ evs \<and>
      (\<forall>p. GetFixedEventHub p \<in> set (manager_requests evs) \<longrightarrow>
           fixedEventHub l w \<and> eventHub l \<noteq> None) \<and>
      (\<forall>h. fixedEventHub l w \<and> eventHub l = Some h \<longrightarrow>
           res = Inr () \<and>
           (\<exists>reqs. manager_requests evs = GetFixedEventHub (peer (hubs w h)) # reqs) \<and>
           eventHub l' \<noteq> None \<and> registered l')"
    using r only bound by blast
next
  assume none: "eventHub l = None"
  let ?w = "logger_debug ''No event hub. Retrieving new one.'' [] w"
  from fallback_effect [of l ?w] obtain res l' w' evs where
    r: "registerWithNewEventHub l ?w = (res, l', w')" "trace w' = trace ?w @ evs"
    and c: "if fixedEventHub l ?w \<and> eventHub l = None
      then res = Inl (JError (''Cannot use a fixed event hub without setting an event hub ''
                               @ listenerName l)) \<and>
           evs = [] \<and> eventHub l' = None
      else res = Inr () \<and> eventHub l' \<noteq> None \<and> registered l' \<and>
           (\<exists>reqs. manager_requests evs =
                (if fixedEventHub l ?w then GetFixedEventHub (peer (hubs ?w (the (eventHub l))))
                 else GetReplayEventHub) # reqs \<and>
              (fixedEventHub l ?w \<or> (\<forall>p. GetFixedEventHub p \<notin> set reqs)))"
    by blast
  have "register l w = (res, l', w')"
    using register_unbound_enters_fallback [OF none] r(1) by simp
  moreover have "trace w' = trace w @ evs"
    using r(2) by (simp add: logger_debug_def)
  moreover have "GetFixedEventHub p \<notin> set (manager_requests evs)" for p
    using c none by (auto split: if_splits)
  ultimately show "\<exists>res l' w' evs. register l w = (res, l', w') \<and> trace w' = trace w @ evs \<and>
         (\<forall>p. GetFixedEventHub p \<notin> set (manager_requests evs))"
    by blast
qed

theorem fallback_fixed_needs_bound_hub_witness:
  "fixedEventHub (example_listener ''tx1'' ''0.5'' None callback_returns)
     (example_world [''fixedEventHub'' \<mapsto> JBool True]) \<and>
   eventHub (example_listener ''tx1'' ''0.5'' None callback_returns) = None \<and>
   (\<exists>l' w'. register (example_listener ''tx1'' ''0.5'' None callback_returns)
               (example_world [''fixedEventHub'' \<mapsto> JBool True]) =
        (Inl (JError ''Cannot use a fixed event hub without setting an event hub tx10.5''),
         l', w') \<and>
      trace w' = [] \<and> eventHub l' = None) \<and>
   eventHub (example_listener ''tx1'' ''0.5'' (Some 0) callback_returns) = Some 0 \<and>
   (\<exists>l' w' reqs. registerWithNewEventHub
               (example_listener ''tx1'' ''0.5'' (Some 0) callback_returns)
               (example_world [''fixedEventHub'' \<mapsto> JBool True]) = (Inr (), l', w') \<and>
      manager_requests (trace w') = GetFixedEventHub ''peer0'' # reqs \<and>
      eventHub l' \<noteq> None \<and> registered l') \<and>
   \<not> fixedEventHub (example_listener ''tx1'' ''0.5'' None callback_returns)
       (example_world Map.empty) \<and>
   (\<exists>res l' w'. register (example_listener ''tx1'' ''0.5'' None callback_returns)
               (example_world Map.empty) = (res, l', w') \<and>
      GetFixedEventHub ''peer0'' \<notin> set (manager_requests (trace w')))"
  using fallback_fixed_needs_bound_hub
          [where l = "example_listener ''tx1'' ''0.5'' None callback_returns"
             and w = "example_world [''fixedEventHub'' \<mapsto> JBool True]"]
        fallback_fixed_needs_bound_hub
          [where l = "example_listener ''tx1'' ''0.5'' (Some 0) callback_returns"
             and w = "example_world [''fixedEventHub'' \<mapsto> JBool True]"]
        fallback_fixed_needs_bound_hub
          [where l = "example_listener ''tx1'' ''0.5'' None callback_returns"
             and w = "example_world Map.empty"]
  by (auto simp: example_defs js_get_def)



subsection \<open>An exception of the callback in the error handler\<close>

text \<open>
  C10. When the caller's callback throws during an error event, the error handler
  does not catch it: the thrown value is the result of the handler, and the debug log
  has the handler's own line only.
\<close>

theorem onError_propagates_callback_exception:
  assumes "eventHub l = Some h" and "eventCallback l [err] = Some e"
  shows "\<exists>w'. onError l w err = (Inl e, l, w') \<and>
     debug_log w' = debug_log w @
       [Debug ''_onError: received error from peer %s: %j'' [JStr (peerAddr (hubs w h)), err]]"
  using assms
  by (simp add: onError_def invoke_callback_def collab_defs Let_def split: option.splits)

theorem onError_propagates_callback_exception_witness:
  "eventHub (watching_listener callback_throws) = Some 0 \<and>
   eventCallback (watching_listener callback_throws) [JError ''peer down'']
     = Some (JError ''boom'') \<and>
   (\<exists>w'. onError (watching_listener callback_throws) (example_world Map.empty)
            (JError ''peer down'')
          = (Inl (JError ''boom''), watching_listener callback_throws, w') \<and>
      debug_log w' = [Debug ''_onError: received error from peer %s: %j''
                        [JStr ''grpc://peer0:7051'', JError ''peer down'']])"
  using onError_propagates_callback_exception
          [of "watching_listener callback_throws" 0 "JError ''peer down''" "JError ''boom''"
              "example_world Map.empty"]
  by (auto simp: example_defs)

end
